theory Spec2Isabelle
  imports Complex_Main "HOL-Library.Word" "HOL-Library.Multiset"
begin

section \<open>Values of the host language\<close>

text \<open>
  A JavaScript string is a sequence of 16-bit code units. The board's titles are
  Cyrillic and \<open>String.prototype.trim\<close> looks at code units beyond Latin-1, so the model
  keeps the code units rather than bytes. \<open>utf16\<close> writes an ASCII literal.
\<close>

type_synonym js_string = "16 word list"

definition utf16 :: "string \<Rightarrow> js_string" where
  "utf16 s = map of_char s"

text \<open>
  A JavaScript number is a double: a rational, an infinity or NaN (the two zeros are
  not told apart; nothing below depends on the sign of zero).
\<close>

datatype js_number = Finite rat | PosInfinity | NegInfinity | NaN

text \<open>
  \<open>String.prototype.trim\<close> strips WhiteSpace and LineTerminator code points from both
  ends (ECMA-262, TrimString): TAB, VT, FF, SP, NBSP, ZWNBSP, the Unicode space
  separators, and LF, CR, LS, PS.
\<close>

definition isWhiteSpace :: "16 word \<Rightarrow> bool" where
  "isWhiteSpace c \<longleftrightarrow>
     c = 0x0009 \<or> c = 0x000A \<or> c = 0x000B \<or> c = 0x000C \<or> c = 0x000D \<or> c = 0x0020 \<or>
     c = 0x00A0 \<or> c = 0x1680 \<or> (0x2000 \<le> c \<and> c \<le> 0x200A) \<or>
     c = 0x2028 \<or> c = 0x2029 \<or> c = 0x202F \<or> c = 0x205F \<or> c = 0x3000 \<or> c = 0xFEFF"

definition trim :: "js_string \<Rightarrow> js_string" where
  "trim s = rev (dropWhile isWhiteSpace (rev (dropWhile isWhiteSpace s)))"

text \<open>
  \<open>Array.prototype.findIndex\<close>: the index of the first element satisfying the
  predicate, \<open>-1\<close> when there is none.
\<close>

fun findIndex_from :: "int \<Rightarrow> ('a \<Rightarrow> bool) \<Rightarrow> 'a list \<Rightarrow> int" where
  "findIndex_from k P [] = - 1"
| "findIndex_from k P (x # xs) = (if P x then k else findIndex_from (k + 1) P xs)"

definition findIndex :: "('a \<Rightarrow> bool) \<Rightarrow> 'a list \<Rightarrow> int" where
  "findIndex P xs = findIndex_from 0 P xs"

text \<open>
  \<open>Array.prototype.splice(start, deleteCount, ...items)\<close> on integral arguments: a
  negative start counts from the end, both arguments are clamped to the array. The
  result is the removed elements and the array's new contents.
\<close>

definition splice :: "int \<Rightarrow> int \<Rightarrow> 'a list \<Rightarrow> 'a list \<Rightarrow> 'a list \<times> 'a list" where
  "splice start deleteCount items xs =
     (let len = int (length xs);
          actualStart = (if start < 0 then max (len + start) 0 else min start len);
          actualDeleteCount = min (max deleteCount 0) (len - actualStart);
          a = nat actualStart;
          d = nat actualDeleteCount
      in (take d (drop a xs), take a xs @ items @ drop (a + d) xs))"


section \<open>The board\<close>

text \<open>
  \<open>type Task = { id: string; title: string; createdAt: number }\<close>,
  \<open>type ColumnId = "todo" | "in_progress" | "done"\<close> and
  \<open>type BoardState = Record<ColumnId, Task[]>\<close>. Both variants of the component
  declare the same three types.
\<close>

record Task =
  task_id :: js_string
  title :: js_string
  createdAt :: js_number

datatype ColumnId = Todo | In_progress | Done

type_synonym BoardState = "ColumnId \<Rightarrow> Task list"

definition column_name :: "ColumnId \<Rightarrow> js_string" where
  "column_name c =
     (case c of Todo \<Rightarrow> utf16 ''todo'' | In_progress \<Rightarrow> utf16 ''in_progress''
      | Done \<Rightarrow> utf16 ''done'')"

text \<open>
  The arrays that \<open>moveTask\<close> copies and then mutates in place live in a store, so that
  \<open>source\<close> and \<open>target\<close> can be one array (when \<open>from === to\<close>) or two.
\<close>

type_synonym array_ref = nat

type_synonym array_store = "array_ref \<Rightarrow> Task list"

definition splice_in ::
  "array_ref \<Rightarrow> int \<Rightarrow> int \<Rightarrow> Task list \<Rightarrow> array_store \<Rightarrow> Task list \<times> array_store" where
  "splice_in r start deleteCount items st =
     (let (removed, ys) = splice start deleteCount items (st r)
      in (removed, st(r := ys)))"


section \<open>Board operations\<close>

text \<open>
  Each operation is the function handed to \<open>setBoard\<close>, applied to the previous state;
  an operation that returns before calling \<open>setBoard\<close> leaves the state as it is.
  \<open>uid()\<close> and \<open>Date.now()\<close> are read from the environment: their results are the
  arguments \<open>new_id\<close> and \<open>now\<close>.
\<close>

definition addTask ::
  "ColumnId \<Rightarrow> js_string \<Rightarrow> js_string \<Rightarrow> js_number \<Rightarrow> BoardState \<Rightarrow> BoardState" where
  "addTask col ttl new_id now prev =
     (if trim ttl = [] then prev
      else prev(col := \<lparr>task_id = new_id, title = trim ttl, createdAt = now\<rparr> # prev col))"

definition removeTask :: "ColumnId \<Rightarrow> js_string \<Rightarrow> BoardState \<Rightarrow> BoardState" where
  "removeTask col ident prev = prev(col := filter (\<lambda>t. task_id t \<noteq> ident) (prev col))"

text \<open>
  \<open>index?: number\<close> ranges over the integers here, the values an index takes;
  \<open>None\<close> is the omitted argument. \<open>const [task] = source.splice(i, 1)\<close> takes the
  first removed element, and \<open>i\<close> is the index of an element whenever that line is
  reached (lemma \<open>splice_found\<close> below), so one element has been removed.
\<close>

definition moveTask ::
  "ColumnId \<Rightarrow> ColumnId \<Rightarrow> js_string \<Rightarrow> int option \<Rightarrow> BoardState \<Rightarrow> BoardState" where
  "moveTask from to ident index prev =
     (let source = (0::array_ref);
          st0 = (\<lambda>_. [])(source := prev from);
          target = (if from = to then source else 1);
          st1 = (if from = to then st0 else st0(target := prev to));
          i = findIndex (\<lambda>t. task_id t = ident) (st1 source)
      in if i = - 1 then prev
         else
           let (removed, st2) = splice_in source i 1 [] st1;
               task = hd removed;
               insertAt = (case index of
                             Some n \<Rightarrow> max 0 (min n (int (length (st2 target))))
                           | None \<Rightarrow> int (length (st2 target)));
               (inserted, st3) = splice_in target insertAt 0 [task] st2
           in prev(from := (if from = to then st3 target else st3 source),
                   to := st3 target))"

section \<open>The remote variant: requests to the store\<close>

text \<open>
  The remote variant keeps one row per task in the table \<open>tasks\<close>:
  \<open>type TaskRow = { id: string; title: string; status: ColumnId; created_at: string }\<close>.
  Each operation first updates the board and then issues one request, which is not
  awaited by anything that touches the board. An operation is modelled as the new
  board together with the requests it issues.
\<close>

record TaskRow =
  row_id :: js_string
  row_title :: js_string
  status :: ColumnId
  created_at :: js_string

datatype store_request =
    Insert TaskRow
  | DeleteById js_string
  | UpdateStatusById js_string ColumnId

text \<open>The remote variant starts from the empty board.\<close>

definition initialData_remote :: BoardState where
  "initialData_remote = (\<lambda>c. case c of Todo \<Rightarrow> [] | In_progress \<Rightarrow> [] | Done \<Rightarrow> [])"

text \<open>
  \<open>new Date(task.createdAt).toISOString()\<close> is the platform's; it is the argument
  \<open>toISOString\<close>.
\<close>

definition addTask_remote ::
  "(js_number \<Rightarrow> js_string) \<Rightarrow> ColumnId \<Rightarrow> js_string \<Rightarrow> js_string \<Rightarrow> js_number \<Rightarrow>
     BoardState \<Rightarrow> BoardState \<times> store_request list" where
  "addTask_remote toISOString col ttl new_id now prev =
     (if trim ttl = [] then (prev, [])
      else
        let task = \<lparr>task_id = new_id, title = trim ttl, createdAt = now\<rparr>
        in (prev(col := task # prev col),
            [Insert \<lparr>row_id = task_id task, row_title = title task, status = col,
                     created_at = toISOString (createdAt task)\<rparr>]))"

definition removeTask_remote ::
  "ColumnId \<Rightarrow> js_string \<Rightarrow> BoardState \<Rightarrow> BoardState \<times> store_request list" where
  "removeTask_remote col ident prev = (removeTask col ident prev, [DeleteById ident])"

definition moveTask_remote ::
  "ColumnId \<Rightarrow> ColumnId \<Rightarrow> js_string \<Rightarrow> int option \<Rightarrow> BoardState \<Rightarrow>
     BoardState \<times> store_request list" where
  "moveTask_remote from to ident index prev =
     (moveTask from to ident index prev, [UpdateStatusById ident to])"

text \<open>
  \<open>fetchTasks\<close>: \<open>data\<close> is the answer of the select ordered by \<open>created_at\<close>
  descending, \<open>None\<close> when the store answers without data; then the board is left as
  it is. \<open>Date.parse\<close> is the platform's and is the argument \<open>date_parse\<close>. The
  \<open>for\<close> loop pushes each row's task at the end of its stage's array.
\<close>

definition task_of_row :: "(js_string \<Rightarrow> js_number) \<Rightarrow> TaskRow \<Rightarrow> Task" where
  "task_of_row date_parse t =
     \<lparr>task_id = row_id t, title = row_title t, createdAt = date_parse (created_at t)\<rparr>"

fun fetchTasks_loop :: "(js_string \<Rightarrow> js_number) \<Rightarrow> TaskRow list \<Rightarrow> BoardState \<Rightarrow> BoardState" where
  "fetchTasks_loop date_parse [] next = next"
| "fetchTasks_loop date_parse (t # ts) next =
     fetchTasks_loop date_parse ts
       (next(status t := next (status t) @ [task_of_row date_parse t]))"

definition fetchTasks ::
  "(js_string \<Rightarrow> js_number) \<Rightarrow> TaskRow list option \<Rightarrow> BoardState \<Rightarrow> BoardState" where
  "fetchTasks date_parse data board =
     (case data of
        None \<Rightarrow> board
      | Some rows \<Rightarrow> fetchTasks_loop date_parse rows initialData_remote)"


section \<open>The local variant: the stored snapshot\<close>

text \<open>
  The value that \<open>JSON.parse\<close> returns: any JSON value. In an object the members are
  in source order, and a later member of the same name overrides an earlier one.
\<close>

datatype json =
    JNull
  | JBool bool
  | JNum js_number
  | JStr js_string
  | JArr "json list"
  | JObj "(js_string \<times> json) list"

text \<open>
  \<open>initialData\<close> of the local variant: two tasks in \<open>todo\<close>, whose ids and times
  come from \<open>uid()\<close> and \<open>Date.now()\<close> when the module is loaded.
\<close>

definition initialData :: "js_string \<Rightarrow> js_string \<Rightarrow> js_number \<Rightarrow> js_number \<Rightarrow> BoardState" where
  "initialData id1 id2 now1 now2 =
     (\<lambda>c. case c of
        Todo \<Rightarrow>
          [\<lparr>task_id = id1,
            title = [0x0421, 0x043F, 0x0440, 0x043E, 0x0431, 0x0443, 0x0432, 0x0430, 0x0442,
                     0x0438, 0x0020, 0x043D, 0x043E, 0x0432, 0x0443, 0x0020, 0x0434, 0x043E,
                     0x0448, 0x043A, 0x0443],
            createdAt = now1\<rparr>,
           \<lparr>task_id = id2,
            title = [0x0414, 0x043E, 0x0434, 0x0430, 0x0442, 0x0438, 0x0020, 0x043F, 0x0435,
                     0x0440, 0x0448, 0x0435, 0x0020, 0x0437, 0x0430, 0x0432, 0x0434, 0x0430,
                     0x043D, 0x043D, 0x044F],
            createdAt = now2\<rparr>]
      | In_progress \<Rightarrow> []
      | Done \<Rightarrow> [])"

text \<open>
  The load effect of \<open>useLocalBoard\<close>. \<open>localStorage.getItem\<close> throws, returns
  \<open>null\<close> or returns the stored string; \<open>parsed\<close> is the outcome of
  \<open>JSON.parse(raw)\<close>, \<open>None\<close> when it throws. The effect stores what was parsed
  without looking at its shape, so the state afterwards is the board it had or an
  unvalidated JSON value.
\<close>

datatype stored_item = GetItemThrows | Missing | Stored js_string

datatype board_data = Board BoardState | Unvalidated json

definition useLocalBoard_load :: "BoardState \<Rightarrow> stored_item \<Rightarrow> json option \<Rightarrow> board_data" where
  "useLocalBoard_load initial item parsed =
     (case item of
        GetItemThrows \<Rightarrow> Board initial
      | Missing \<Rightarrow> Board initial
      | Stored raw \<Rightarrow>
          if raw = [] then Board initial
          else (case parsed of None \<Rightarrow> Board initial | Some v \<Rightarrow> Unvalidated v))"


section \<open>Dropping a card on a column\<close>

text \<open>
  \<open>payload?.taskId\<close>: the member of an object, \<open>undefined\<close> (\<open>None\<close>) for a
  missing member, for \<open>null\<close> and for a primitive or an array, which have no member
  of the names read here (\<open>taskId\<close>, \<open>from\<close>).
\<close>

fun member :: "json \<Rightarrow> js_string \<Rightarrow> json option" where
  "member (JObj kvs) k = map_of (rev kvs) k"
| "member v k = None"

text \<open>Truthiness of a JSON value, as \<open>!\<close> tests it.\<close>

fun truthy :: "json \<Rightarrow> bool" where
  "truthy JNull = False"
| "truthy (JBool b) = b"
| "truthy (JNum n) = (n \<noteq> Finite 0 \<and> n \<noteq> NaN)"
| "truthy (JStr s) = (s \<noteq> [])"
| "truthy (JArr vs) = True"
| "truthy (JObj kvs) = True"

text \<open>
  \<open>prev[from]\<close> with \<open>from\<close> cast from the payload: the key is the string
  conversion of the value. It names a stage when the value is the stage's name or an
  array holding only such a value (\<open>String(["todo"])\<close> is \<open>"todo"\<close>). The conversion
  of a number, a boolean, \<open>null\<close>, an object or any other array is no stage name.
  Any other key reads \<open>undefined\<close> or a member inherited from \<open>Object.prototype\<close>,
  which the spread \<open>[...prev[from]]\<close> cannot iterate: it throws TypeError.
\<close>

datatype js_error = TypeError

fun column_of_key :: "json \<Rightarrow> ColumnId option" where
  "column_of_key (JStr s) =
     (if s = utf16 ''todo'' then Some Todo
      else if s = utf16 ''in_progress'' then Some In_progress
      else if s = utf16 ''done'' then Some Done
      else None)"
| "column_of_key (JArr [v]) = column_of_key v"
| "column_of_key v = None"

text \<open>
  \<open>moveTask\<close> as it runs on the values \<open>onDropColumn\<close> hands it, where
  \<open>payload.from as ColumnId\<close> and \<open>payload.taskId as string\<close> are unchecked casts:
  \<open>from === to\<close> and \<open>t.id === id\<close> are strict equalities against strings, and the
  computed keys \<open>[from]\<close> and \<open>[to]\<close> of the result are converted to strings, the
  later one winning when both name one stage.
\<close>

definition moveTask_dyn ::
  "json \<Rightarrow> ColumnId \<Rightarrow> json \<Rightarrow> int option \<Rightarrow> BoardState \<Rightarrow> js_error + BoardState" where
  "moveTask_dyn from to ident index prev =
     (case column_of_key from of
        None \<Rightarrow> Inl TypeError
      | Some from_col \<Rightarrow>
          let source = (0::array_ref);
              st0 = (\<lambda>_. [])(source := prev from_col);
              same = (from = JStr (column_name to));
              target = (if same then source else 1);
              st1 = (if same then st0 else st0(target := prev to));
              i = findIndex (\<lambda>t. JStr (task_id t) = ident) (st1 source)
          in if i = - 1 then Inr prev
             else
               let (removed, st2) = splice_in source i 1 [] st1;
                   task = hd removed;
                   insertAt = (case index of
                                 Some n \<Rightarrow> max 0 (min n (int (length (st2 target))))
                               | None \<Rightarrow> int (length (st2 target)));
                   (inserted, st3) = splice_in target insertAt 0 [task] st2
               in Inr (prev(from_col := (if same then st3 target else st3 source),
                            to := st3 target)))"

text \<open>
  \<open>onDropColumn\<close>: \<open>parsed\<close> is the outcome of
  \<open>JSON.parse(e.dataTransfer.getData("text/plain"))\<close>, \<open>None\<close> when it throws and
  the \<open>catch\<close> swallows it. \<open>setBoard\<close> itself does not throw: the function handed
  to it runs when React computes the next state, outside the \<open>try\<close>. The result is
  the next board, or the error that function throws.
\<close>

definition onDropColumn :: "json option \<Rightarrow> ColumnId \<Rightarrow> BoardState \<Rightarrow> js_error + BoardState" where
  "onDropColumn parsed to board =
     (case parsed of
        None \<Rightarrow> Inr board
      | Some payload \<Rightarrow>
          (case member payload (utf16 ''taskId'') of
             None \<Rightarrow> Inr board
           | Some taskId \<Rightarrow>
               if \<not> truthy taskId then Inr board
               else
                 (case member payload (utf16 ''from'') of
                    None \<Rightarrow> Inr board
                  | Some from \<Rightarrow>
                      if \<not> truthy from then Inr board
                      else moveTask_dyn from to taskId None board)))"


section \<open>Notions of the specification\<close>

text \<open>The number of tasks summed over the three stages.\<close>

definition total_count :: "BoardState \<Rightarrow> nat" where
  "total_count b = length (b Todo) + length (b In_progress) + length (b Done)"

text \<open>
  The invariant of the board: no task id appears in two stages or twice in one stage.
\<close>

definition all_ids :: "BoardState \<Rightarrow> js_string list" where
  "all_ids b = map task_id (b Todo @ b In_progress @ b Done)"

definition board_inv :: "BoardState \<Rightarrow> bool" where
  "board_inv b \<longleftrightarrow> distinct (all_ids b)"

text \<open>
  Positions in a list: the first task with a given id, the list without its \<open>n\<close>-th
  element, the list with an element put at position \<open>k\<close>, and an optional index
  clamped to \<open>[0, length]\<close> (the end when the index is omitted).
\<close>

definition first_pos :: "js_string \<Rightarrow> Task list \<Rightarrow> nat" where
  "first_pos ident xs = length (takeWhile (\<lambda>t. task_id t \<noteq> ident) xs)"

definition remove_at :: "nat \<Rightarrow> 'a list \<Rightarrow> 'a list" where
  "remove_at n xs = take n xs @ drop (Suc n) xs"

definition insert_at :: "nat \<Rightarrow> 'a \<Rightarrow> 'a list \<Rightarrow> 'a list" where
  "insert_at k x xs = take k xs @ x # drop k xs"

definition clamped :: "int option \<Rightarrow> nat \<Rightarrow> nat" where
  "clamped index len =
     (case index of
        None \<Rightarrow> len
      | Some n \<Rightarrow> if n < 0 then 0 else if int len < n then len else nat n)"

text \<open>
  The board used in the examples: the seed of the local variant with the ids
  \<open>k3x9q2a\<close> and \<open>p0m4z8c\<close>.
\<close>

abbreviation seed_board :: BoardState where
  "seed_board \<equiv>
     initialData (utf16 ''k3x9q2a'') (utf16 ''p0m4z8c'')
       (Finite 1700000000000) (Finite 1700000000000)"


section \<open>Properties of \<open>moveTask\<close>\<close>

subsection \<open>Arrays\<close>

lemma findIndex_from_takeWhile:
  "findIndex_from k P xs =
     (if \<exists>x\<in>set xs. P x then k + int (length (takeWhile (\<lambda>x. \<not> P x) xs)) else - 1)"
  by (induction xs arbitrary: k) auto

lemma findIndex_eq:
  "findIndex P xs =
     (if \<exists>x\<in>set xs. P x then int (length (takeWhile (\<lambda>x. \<not> P x) xs)) else - 1)"
  by (simp add: findIndex_def findIndex_from_takeWhile)

lemma splice_delete_one:
  "n < length xs \<Longrightarrow> splice (int n) 1 [] xs = ([xs ! n], remove_at n xs)"
  by (simp add: splice_def remove_at_def Let_def min_def max_def hd_drop_conv_nth
        flip: Cons_nth_drop_Suc)

lemma splice_insert_one:
  "0 \<le> k \<Longrightarrow> k \<le> int (length xs) \<Longrightarrow> splice k 0 [x] xs = ([], insert_at (nat k) x xs)"
  by (simp add: splice_def insert_at_def Let_def min_def max_def)

lemma clamped_eq:
  "clamped index len =
     (case index of Some n \<Rightarrow> nat (max 0 (min n (int len))) | None \<Rightarrow> len)"
  by (auto simp add: clamped_def split: option.split)

lemma clamped_le: "clamped index len \<le> len"
  by (auto simp add: clamped_def split: option.split)

lemma splice_insert_clamped:
  "splice (case index of Some n \<Rightarrow> max 0 (min n (int (length xs))) | None \<Rightarrow> int (length xs))
      0 [x] xs = ([], insert_at (clamped index (length xs)) x xs)"
  by (cases index) (simp_all add: splice_insert_one clamped_eq)

lemma length_remove_at: "n < length xs \<Longrightarrow> Suc (length (remove_at n xs)) = length xs"
  by (simp add: remove_at_def)

lemma length_insert_at: "length (insert_at k x xs) = Suc (length xs)"
  by (simp add: insert_at_def)

lemma mset_remove_at: "n < length xs \<Longrightarrow> add_mset (xs ! n) (mset (remove_at n xs)) = mset xs"
proof -
  assume n: "n < length xs"
  then have "xs = take n xs @ xs ! n # drop (Suc n) xs"
    by (simp add: id_take_nth_drop)
  then have "mset xs = mset (take n xs @ xs ! n # drop (Suc n) xs)"
    by simp
  then show ?thesis
    by (simp add: remove_at_def)
qed

lemma mset_insert_at: "mset (insert_at k x xs) = add_mset x (mset xs)"
proof -
  have "mset (take k xs) + mset (drop k xs) = mset xs"
    by (simp flip: mset_append)
  then show ?thesis
    by (simp add: insert_at_def)
qed

lemma nth_insert_at: "k \<le> length xs \<Longrightarrow> insert_at k x xs ! k = x"
  by (simp add: insert_at_def nth_append)

subsection \<open>The first task with an id\<close>

lemma first_pos_less: "ident \<in> task_id ` set xs \<Longrightarrow> first_pos ident xs < length xs"
  unfolding first_pos_def by (induction xs) auto

lemma first_pos_id: "ident \<in> task_id ` set xs \<Longrightarrow> task_id (xs ! first_pos ident xs) = ident"
  unfolding first_pos_def by (induction xs) auto

lemma first_pos_first: "j < first_pos ident xs \<Longrightarrow> task_id (xs ! j) \<noteq> ident"
  unfolding first_pos_def by (metis (mono_tags, lifting) nth_length_takeWhile takeWhile_nth nth_mem set_takeWhileD)

lemma findIndex_first_pos:
  "ident \<in> task_id ` set xs \<Longrightarrow>
     findIndex (\<lambda>t. task_id t = ident) xs = int (first_pos ident xs)"
  by (auto simp add: findIndex_eq first_pos_def)

text \<open>
  When \<open>findIndex\<close> has found the task, \<open>source.splice(i, 1)\<close> removes exactly that
  task, so the destructuring \<open>[task]\<close> reads a removed element.
\<close>

lemma splice_found:
  fixes xs :: "Task list"
  assumes "findIndex (\<lambda>t. task_id t = ident) xs = i" and "i \<noteq> - 1"
  shows "fst (splice i 1 [] xs) = [xs ! nat i] \<and> task_id (xs ! nat i) = ident"
proof -
  from assms have mem: "ident \<in> task_id ` set xs"
    by (auto simp add: findIndex_eq split: if_splits)
  with assms(1) have i: "i = int (first_pos ident xs)"
    by (simp add: findIndex_first_pos)
  show ?thesis
    using first_pos_less [OF mem] first_pos_id [OF mem]
    by (simp add: i splice_delete_one)
qed

subsection \<open>What \<open>moveTask\<close> computes\<close>

lemma moveTask_same:
  assumes "ident \<in> task_id ` set (prev from)"
  shows "moveTask from from ident index prev =
     prev(from := insert_at (clamped index (length (remove_at (first_pos ident (prev from)) (prev from))))
                    (prev from ! first_pos ident (prev from))
                    (remove_at (first_pos ident (prev from)) (prev from)))"
  using first_pos_less [OF assms]
  by (simp add: moveTask_def findIndex_first_pos [OF assms] splice_in_def splice_delete_one
        splice_insert_clamped Let_def)

lemma moveTask_other:
  assumes "ident \<in> task_id ` set (prev from)" and "from \<noteq> to"
  shows "moveTask from to ident index prev =
     prev(from := remove_at (first_pos ident (prev from)) (prev from),
          to := insert_at (clamped index (length (prev to)))
                    (prev from ! first_pos ident (prev from)) (prev to))"
  using first_pos_less [OF assms(1)] assms(2)
  by (simp add: moveTask_def findIndex_first_pos [OF assms(1)] splice_in_def splice_delete_one
        splice_insert_clamped Let_def)

lemma moveTask_not_found:
  "ident \<notin> task_id ` set (prev from) \<Longrightarrow> moveTask from to ident index prev = prev"
  by (auto simp add: moveTask_def Let_def findIndex_eq)

lemma mset_moveTask_same:
  assumes "ident \<in> task_id ` set (prev from)"
  shows "mset (moveTask from from ident index prev from) = mset (prev from)"
  using first_pos_less [OF assms]
  by (simp add: moveTask_same [of ident prev "from", OF assms] mset_insert_at mset_remove_at)

text \<open>
  Claim C1. When the task id occurs in \<open>from\<close>'s list, \<open>moveTask\<close> takes the first
  task with that id out of \<open>from\<close>'s list and puts it into \<open>to\<close>'s list at the index
  clamped to \<open>[0, length of the target list]\<close>, at the end when the index is omitted;
  the target list is \<open>to\<close>'s list, which for \<open>from = to\<close> is the list the task has
  just been taken out of. The task is at that position afterwards, the stages other than
  \<open>from\<close> and \<open>to\<close> keep their lists, and for \<open>from = to\<close> the list keeps its tasks
  (as a multiset, so none is duplicated or lost) and its set of ids.
\<close>

theorem moveTask_moves:
  assumes "ident \<in> task_id ` set (prev from)"
  shows "let n = first_pos ident (prev from);
             task = prev from ! n;
             rest = remove_at n (prev from);
             tgt = (if from = to then rest else prev to);
             k = clamped index (length tgt);
             next = moveTask from to ident index prev
         in task_id task = ident
          \<and> next to = insert_at k task tgt \<and> k \<le> length tgt \<and> next to ! k = task
          \<and> (if from = to
              then mset (next to) = mset (prev from)
                 \<and> task_id ` set (next to) = task_id ` set (prev from)
              else next from = rest)
          \<and> (\<forall>c. c \<noteq> from \<and> c \<noteq> to \<longrightarrow> next c = prev c)"
proof (cases "from = to")
  case True
  have m: "mset (moveTask from from ident index prev from) = mset (prev from)"
    using assms by (rule mset_moveTask_same)
  then have s: "set (moveTask from from ident index prev from) = set (prev from)"
    by (rule mset_eq_setD)
  show ?thesis
    unfolding Let_def True [symmetric]
    using m s first_pos_id [OF assms]
    by (simp add: moveTask_same [of ident prev "from", OF assms] clamped_le nth_insert_at)
next
  case False
  show ?thesis
    unfolding Let_def
    using False first_pos_id [OF assms]
    by (simp add: moveTask_other [of ident prev "from", OF assms False] clamped_le nth_insert_at)
qed

theorem moveTask_moves_witness:
  "utf16 ''k3x9q2a'' \<in> task_id ` set (seed_board Todo)
   \<and> map task_id (moveTask Todo In_progress (utf16 ''k3x9q2a'') None seed_board Todo) = [utf16 ''p0m4z8c'']
   \<and> map task_id (moveTask Todo In_progress (utf16 ''k3x9q2a'') None seed_board In_progress)
       = [utf16 ''k3x9q2a'']
   \<and> map task_id (moveTask Todo Todo (utf16 ''k3x9q2a'') (Some 7) seed_board Todo)
       = [utf16 ''p0m4z8c'', utf16 ''k3x9q2a'']"
proof -
  have h: "utf16 ''k3x9q2a'' \<in> task_id ` set (seed_board Todo)"
    by (simp add: initialData_def)
  show ?thesis
    using h moveTask_moves [of "utf16 ''k3x9q2a''" seed_board Todo In_progress None, OF h]
      moveTask_moves [of "utf16 ''k3x9q2a''" seed_board Todo Todo "Some 7", OF h]
    by (simp add: initialData_def first_pos_def remove_at_def insert_at_def clamped_def
          utf16_def Let_def)
qed

text \<open>
  Claim C2. \<open>moveTask\<close> never changes the number of tasks summed over the three
  stages, whatever the stages, the id and the index.
\<close>

theorem moveTask_total_count:
  "total_count (moveTask from to ident index prev) = total_count prev"
proof (cases "ident \<in> task_id ` set (prev from)")
  case False
  then show ?thesis
    by (simp add: moveTask_not_found)
next
  case found: True
  note len = length_remove_at [OF first_pos_less [OF found]]
  show ?thesis
  proof (cases "from = to")
    case True
    have "length (moveTask from from ident index prev from) = length (prev from)"
      using len by (simp add: moveTask_same [of ident prev "from", OF found] length_insert_at)
    moreover have "\<And>c. c \<noteq> from \<Longrightarrow> moveTask from from ident index prev c = prev c"
      by (simp add: moveTask_same [of ident prev "from", OF found])
    ultimately show ?thesis
      unfolding True [symmetric] total_count_def by (cases "from") simp_all
  next
    case False
    have "Suc (length (moveTask from to ident index prev from)) = length (prev from)"
      using len False by (simp add: moveTask_other [of ident prev "from", OF found False])
    moreover have "length (moveTask from to ident index prev to) = Suc (length (prev to))"
      by (simp add: moveTask_other [of ident prev "from", OF found False] length_insert_at)
    moreover have "\<And>c. c \<noteq> from \<Longrightarrow> c \<noteq> to \<Longrightarrow> moveTask from to ident index prev c = prev c"
      by (simp add: moveTask_other [of ident prev "from", OF found False])
    ultimately show ?thesis
      using False unfolding total_count_def by (cases "from"; cases to) simp_all
  qed
qed

text \<open>
  Claim C4. When the task id does not occur in \<open>from\<close>'s list, \<open>moveTask\<close> returns the
  state it was given, for every target stage and every index.
\<close>

theorem moveTask_unknown_id:
  "ident \<notin> task_id ` set (prev from) \<Longrightarrow> moveTask from to ident index prev = prev"
  by (auto simp add: moveTask_def Let_def findIndex_eq)

theorem moveTask_unknown_id_witness:
  "utf16 ''zzzzzzz'' \<notin> task_id ` set (seed_board Todo)
   \<and> moveTask Todo Done (utf16 ''zzzzzzz'') (Some 0) seed_board = seed_board"
proof -
  have h: "utf16 ''zzzzzzz'' \<notin> task_id ` set (seed_board Todo)"
    by (simp add: initialData_def utf16_def)
  show ?thesis
    using h moveTask_unknown_id [of "utf16 ''zzzzzzz''" seed_board Todo Done "Some 0", OF h]
    by simp
qed


section \<open>Properties of \<open>addTask\<close>\<close>

subsection \<open>What \<open>trim\<close> removes\<close>

lemma trim_Nil_iff: "trim s = [] \<longleftrightarrow> (\<forall>c\<in>set s. isWhiteSpace c)"
proof
  let ?m = "dropWhile isWhiteSpace s"
  assume "trim s = []"
  then have all: "\<forall>c\<in>set ?m. isWhiteSpace c"
    by (simp add: trim_def)
  have "?m = []"
  proof (rule ccontr)
    assume ne: "?m \<noteq> []"
    then have "\<not> isWhiteSpace (hd ?m)"
      by (rule hd_dropWhile)
    moreover from ne have "hd ?m \<in> set ?m"
      by (rule hd_in_set)
    ultimately show False
      using all by blast
  qed
  then show "\<forall>c\<in>set s. isWhiteSpace c"
    by simp
next
  assume "\<forall>c\<in>set s. isWhiteSpace c"
  then show "trim s = []"
    by (auto simp add: trim_def dest: set_dropWhileD)
qed

lemma trim_suffix:
  "dropWhile isWhiteSpace s
     = trim s @ rev (takeWhile isWhiteSpace (rev (dropWhile isWhiteSpace s)))"
proof -
  let ?m = "dropWhile isWhiteSpace s"
  have "rev (takeWhile isWhiteSpace (rev ?m) @ dropWhile isWhiteSpace (rev ?m)) = ?m"
    by (simp only: takeWhile_dropWhile_id rev_rev_ident)
  then show ?thesis
    unfolding rev_append trim_def by (rule sym)
qed

lemma trim_decomposition:
  "\<exists>pre post. s = pre @ trim s @ post
      \<and> (\<forall>c\<in>set pre. isWhiteSpace c) \<and> (\<forall>c\<in>set post. isWhiteSpace c)"
proof -
  let ?m = "dropWhile isWhiteSpace s"
  let ?post = "rev (takeWhile isWhiteSpace (rev ?m))"
  have "s = takeWhile isWhiteSpace s @ ?m"
    by simp
  also have "?m = trim s @ ?post"
    by (rule trim_suffix)
  finally have "s = takeWhile isWhiteSpace s @ trim s @ ?post" .
  moreover have "\<forall>c\<in>set (takeWhile isWhiteSpace s). isWhiteSpace c"
    by (auto dest: set_takeWhileD)
  moreover have "\<forall>c\<in>set ?post. isWhiteSpace c"
    by (auto dest: set_takeWhileD)
  ultimately show ?thesis
    by blast
qed

lemma trim_ends:
  assumes "trim s \<noteq> []"
  shows "\<not> isWhiteSpace (hd (trim s)) \<and> \<not> isWhiteSpace (last (trim s))"
proof -
  let ?m = "dropWhile isWhiteSpace s"
  let ?r = "dropWhile isWhiteSpace (rev ?m)"
  from assms have r: "?r \<noteq> []"
    by (simp add: trim_def)
  then have "\<not> isWhiteSpace (hd ?r)"
    by (rule hd_dropWhile)
  then have l: "\<not> isWhiteSpace (last (trim s))"
    using r by (simp add: trim_def last_rev)
  have m: "?m \<noteq> []"
  proof
    assume "?m = []"
    then have "?r = []"
      by (simp only: rev.simps dropWhile.simps)
    with r show False ..
  qed
  then have hm: "\<not> isWhiteSpace (hd ?m)"
    by (rule hd_dropWhile)
  have "hd ?m = hd (trim s @ rev (takeWhile isWhiteSpace (rev ?m)))"
    using trim_suffix [of s] by simp
  with assms have "hd ?m = hd (trim s)"
    by simp
  with hm l show ?thesis
    by simp
qed

subsection \<open>Blank and proper titles\<close>

text \<open>
  Claim C5. When the title trims to the empty string, which is when it is empty or
  all of its code units are white space, \<open>addTask\<close> returns the state it was given,
  for every stage; the remote variant issues no request either.
\<close>

theorem addTask_blank_title:
  assumes "trim ttl = []"
  shows "(\<forall>c\<in>set ttl. isWhiteSpace c)
       \<and> addTask col ttl new_id now prev = prev
       \<and> addTask_remote toISOString col ttl new_id now prev = (prev, [])"
  using assms by (simp add: addTask_def addTask_remote_def flip: trim_Nil_iff)

theorem addTask_blank_title_witness:
  "trim (utf16 ''   '') = []
   \<and> addTask Todo (utf16 ''   '') (utf16 ''q7w1e5r'') (Finite 1700000000001) seed_board = seed_board"
proof -
  have h: "trim (utf16 ''   '') = []"
    by (simp add: trim_def utf16_def isWhiteSpace_def)
  show ?thesis
    using h addTask_blank_title [OF h, of Todo "utf16 ''q7w1e5r''" "Finite 1700000000001" seed_board]
    by simp
qed

text \<open>
  Claim C6. When the trimmed title is not empty, \<open>addTask\<close> puts one new task, whose
  title is the trimmed input, in front of the stage's list and leaves the lists of the
  other two stages as they are; the board holds one task more.
\<close>

theorem addTask_prepends:
  assumes "trim ttl \<noteq> []"
  shows "addTask col ttl new_id now prev col
           = \<lparr>task_id = new_id, title = trim ttl, createdAt = now\<rparr> # prev col
       \<and> (\<forall>c. c \<noteq> col \<longrightarrow> addTask col ttl new_id now prev c = prev c)
       \<and> total_count (addTask col ttl new_id now prev) = Suc (total_count prev)
       \<and> fst (addTask_remote toISOString col ttl new_id now prev)
           = addTask col ttl new_id now prev"
  using assms by (cases col) (simp_all add: addTask_def addTask_remote_def total_count_def Let_def)

theorem addTask_prepends_witness:
  "trim (utf16 '' Buy milk  '') \<noteq> []
   \<and> map title (addTask Todo (utf16 '' Buy milk  '') (utf16 ''q7w1e5r'') (Finite 1700000000001)
        initialData_remote Todo) = [utf16 ''Buy milk'']
   \<and> addTask Todo (utf16 '' Buy milk  '') (utf16 ''q7w1e5r'') (Finite 1700000000001)
        initialData_remote In_progress = []
   \<and> addTask Todo (utf16 '' Buy milk  '') (utf16 ''q7w1e5r'') (Finite 1700000000001)
        initialData_remote Done = []"
proof -
  have t: "trim (utf16 '' Buy milk  '') = utf16 ''Buy milk''"
    by (simp add: trim_def utf16_def isWhiteSpace_def)
  have h: "trim (utf16 '' Buy milk  '') \<noteq> []"
    by (simp add: t) (simp add: utf16_def)
  show ?thesis
    using h addTask_prepends [OF h, of Todo "utf16 ''q7w1e5r''" "Finite 1700000000001"
        initialData_remote]
    by (simp add: t initialData_remote_def)
qed


section \<open>The invariant of the board\<close>

lemma mset_all_ids:
  "mset (all_ids b)
     = image_mset task_id (mset (b Todo) + mset (b In_progress) + mset (b Done))"
  by (simp add: all_ids_def)

lemma mset_all_ids_moveTask:
  "mset (all_ids (moveTask from to ident index prev)) = mset (all_ids prev)"
proof (cases "ident \<in> task_id ` set (prev from)")
  case False
  then show ?thesis
    by (simp add: moveTask_not_found)
next
  case found: True
  note rm = mset_remove_at [OF first_pos_less [OF found], symmetric]
  show ?thesis
  proof (cases "from = to")
    case True
    have "mset (moveTask from from ident index prev from) = mset (prev from)"
      using found by (rule mset_moveTask_same)
    moreover have "\<And>c. c \<noteq> from \<Longrightarrow> moveTask from from ident index prev c = prev c"
      by (simp add: moveTask_same [of ident prev "from", OF found])
    ultimately show ?thesis
      unfolding True [symmetric] mset_all_ids by (cases "from") simp_all
  next
    case False
    let ?t = "prev from ! first_pos ident (prev from)"
    have "add_mset ?t (mset (moveTask from to ident index prev from)) = mset (prev from)"
      using rm False by (simp add: moveTask_other [of ident prev "from", OF found False])
    moreover have "mset (moveTask from to ident index prev to) = add_mset ?t (mset (prev to))"
      by (simp add: moveTask_other [of ident prev "from", OF found False] mset_insert_at)
    moreover have "\<And>c. c \<noteq> from \<Longrightarrow> c \<noteq> to \<Longrightarrow> moveTask from to ident index prev c = prev c"
      by (simp add: moveTask_other [of ident prev "from", OF found False])
    ultimately have
      "mset (moveTask from to ident index prev Todo)
         + mset (moveTask from to ident index prev In_progress)
         + mset (moveTask from to ident index prev Done)
       = mset (prev Todo) + mset (prev In_progress) + mset (prev Done)"
      using False by (cases "from"; cases to) (simp_all flip: add_mset_add_single)
    then show ?thesis
      by (simp only: mset_all_ids)
  qed
qed

lemma board_inv_moveTask: "board_inv (moveTask from to ident index prev) = board_inv prev"
  unfolding board_inv_def
  by (rule mset_eq_imp_distinct_iff) (rule mset_all_ids_moveTask)

lemma board_inv_removeTask: "board_inv prev \<Longrightarrow> board_inv (removeTask col ident prev)"
  by (cases col) (auto simp add: board_inv_def all_ids_def removeTask_def distinct_map_filter)

lemma board_inv_addTask:
  "board_inv (addTask col ttl new_id now prev)
     \<longleftrightarrow> board_inv prev \<and> (trim ttl = [] \<or> new_id \<notin> set (all_ids prev))"
  by (cases col) (auto simp add: board_inv_def all_ids_def addTask_def)

text \<open>
  Claim C3, as amended. On a board where no task id appears in two stages or twice in
  one stage, the state after any single \<open>removeTask\<close> or \<open>moveTask\<close> has that
  property again, and the state after an \<open>addTask\<close> has it exactly when the title
  trims to empty (nothing is added) or the id that \<open>uid()\<close> returned is not yet on
  the board.
\<close>

theorem operations_keep_invariant:
  assumes "board_inv b"
  shows "board_inv (removeTask col ident b)
       \<and> board_inv (moveTask from to ident index b)
       \<and> (board_inv (addTask col ttl new_id now b)
            \<longleftrightarrow> trim ttl = [] \<or> new_id \<notin> set (all_ids b))"
  using assms by (simp add: board_inv_removeTask board_inv_moveTask board_inv_addTask)

theorem operations_keep_invariant_witness:
  "board_inv seed_board
   \<and> board_inv (removeTask Todo (utf16 ''k3x9q2a'') seed_board)
   \<and> board_inv (moveTask Todo Done (utf16 ''k3x9q2a'') None seed_board)
   \<and> board_inv (addTask Todo (utf16 ''Buy milk'') (utf16 ''q7w1e5r'') (Finite 1700000000001)
        seed_board)"
proof -
  have h: "board_inv seed_board"
    by (simp add: board_inv_def all_ids_def initialData_def utf16_def)
  have t: "trim (utf16 ''Buy milk'') \<noteq> []"
    by (simp add: trim_def utf16_def isWhiteSpace_def)
  have f: "utf16 ''q7w1e5r'' \<notin> set (all_ids seed_board)"
    by (simp add: all_ids_def initialData_def utf16_def)
  show ?thesis
    using h t f
      operations_keep_invariant [OF h, of Todo "utf16 ''k3x9q2a''" Todo Done None
        "utf16 ''Buy milk''" "utf16 ''q7w1e5r''" "Finite 1700000000001"]
    by simp
qed

text \<open>
  Claim C3 as stated fails for \<open>addTask\<close>: \<open>uid()\<close> draws the id at random and
  nothing compares it with the ids on the board. On the seed board, an \<open>addTask\<close>
  for which \<open>uid()\<close> returns the id of the first seed task gives a board with that
  id in two stages.
\<close>

theorem addTask_id_collision:
  "board_inv seed_board
   \<and> \<not> board_inv (addTask Done (utf16 ''Buy milk'') (utf16 ''k3x9q2a'') (Finite 1700000000001)
          seed_board)"
  by (simp add: board_inv_def all_ids_def addTask_def initialData_def trim_def isWhiteSpace_def
        utf16_def)


section \<open>Loading the board\<close>

lemma fetchTasks_loop_groups:
  "fetchTasks_loop date_parse rows next c
     = next c @ map (task_of_row date_parse) (filter (\<lambda>t. status t = c) rows)"
  by (induction rows arbitrary: "next") simp_all

text \<open>
  Claim C9. In the remote variant, for every list of rows that the select returns, the
  board that \<open>fetchTasks\<close> sets holds in each stage one task for each row whose
  \<open>status\<close> is that stage and no other task, in the order in which the rows were
  returned; the task carries the row's \<open>id\<close> and \<open>title\<close>, and
  \<open>Date.parse\<close> of its \<open>created_at\<close>.
\<close>

theorem fetchTasks_groups_by_status:
  "fetchTasks date_parse (Some rows) board c
     = map (\<lambda>t. \<lparr>task_id = row_id t, title = row_title t,
                  createdAt = date_parse (created_at t)\<rparr>)
         (filter (\<lambda>t. status t = c) rows)
   \<and> map task_id (fetchTasks date_parse (Some rows) board c)
     = map row_id (filter (\<lambda>t. status t = c) rows)
   \<and> map title (fetchTasks date_parse (Some rows) board c)
     = map row_title (filter (\<lambda>t. status t = c) rows)
   \<and> map createdAt (fetchTasks date_parse (Some rows) board c)
     = map (\<lambda>t. date_parse (created_at t)) (filter (\<lambda>t. status t = c) rows)"
proof -
  have "fetchTasks date_parse (Some rows) board c
          = map (task_of_row date_parse) (filter (\<lambda>t. status t = c) rows)"
    by (cases c) (simp_all add: fetchTasks_def fetchTasks_loop_groups initialData_remote_def)
  then show ?thesis
    by (simp add: task_of_row_def comp_def)
qed

theorem fetchTasks_groups_by_status_witness:
  "map task_id
     (fetchTasks (Finite \<circ> of_nat \<circ> length)
        (Some [\<lparr>row_id = utf16 ''k3x9q2a'', row_title = utf16 ''Ship it'', status = Done,
                 created_at = utf16 ''2024-03-02T10:00:00+00:00''\<rparr>,
               \<lparr>row_id = utf16 ''p0m4z8c'', row_title = utf16 ''Buy milk'', status = Todo,
                 created_at = utf16 ''2024-03-01T09:00:00+00:00''\<rparr>,
               \<lparr>row_id = utf16 ''q7w1e5r'', row_title = utf16 ''Write spec'', status = Done,
                 created_at = utf16 ''2024-02-28T08:00:00+00:00''\<rparr>])
        seed_board Done)
     = [utf16 ''k3x9q2a'', utf16 ''q7w1e5r'']
   \<and> map title
     (fetchTasks (Finite \<circ> of_nat \<circ> length)
        (Some [\<lparr>row_id = utf16 ''k3x9q2a'', row_title = utf16 ''Ship it'', status = Done,
                 created_at = utf16 ''2024-03-02T10:00:00+00:00''\<rparr>,
               \<lparr>row_id = utf16 ''p0m4z8c'', row_title = utf16 ''Buy milk'', status = Todo,
                 created_at = utf16 ''2024-03-01T09:00:00+00:00''\<rparr>,
               \<lparr>row_id = utf16 ''q7w1e5r'', row_title = utf16 ''Write spec'', status = Done,
                 created_at = utf16 ''2024-02-28T08:00:00+00:00''\<rparr>])
        seed_board Done)
     = [utf16 ''Ship it'', utf16 ''Write spec'']
   \<and> fetchTasks (Finite \<circ> of_nat \<circ> length)
        (Some [\<lparr>row_id = utf16 ''k3x9q2a'', row_title = utf16 ''Ship it'', status = Done,
                 created_at = utf16 ''2024-03-02T10:00:00+00:00''\<rparr>,
               \<lparr>row_id = utf16 ''p0m4z8c'', row_title = utf16 ''Buy milk'', status = Todo,
                 created_at = utf16 ''2024-03-01T09:00:00+00:00''\<rparr>,
               \<lparr>row_id = utf16 ''q7w1e5r'', row_title = utf16 ''Write spec'', status = Done,
                 created_at = utf16 ''2024-02-28T08:00:00+00:00''\<rparr>])
        seed_board In_progress
     = []"
  using
    fetchTasks_groups_by_status [of "Finite \<circ> of_nat \<circ> length"
      "[\<lparr>row_id = utf16 ''k3x9q2a'', row_title = utf16 ''Ship it'', status = Done,
          created_at = utf16 ''2024-03-02T10:00:00+00:00''\<rparr>,
        \<lparr>row_id = utf16 ''p0m4z8c'', row_title = utf16 ''Buy milk'', status = Todo,
          created_at = utf16 ''2024-03-01T09:00:00+00:00''\<rparr>,
        \<lparr>row_id = utf16 ''q7w1e5r'', row_title = utf16 ''Write spec'', status = Done,
          created_at = utf16 ''2024-02-28T08:00:00+00:00''\<rparr>]" seed_board Done]
    fetchTasks_groups_by_status [of "Finite \<circ> of_nat \<circ> length"
      "[\<lparr>row_id = utf16 ''k3x9q2a'', row_title = utf16 ''Ship it'', status = Done,
          created_at = utf16 ''2024-03-02T10:00:00+00:00''\<rparr>,
        \<lparr>row_id = utf16 ''p0m4z8c'', row_title = utf16 ''Buy milk'', status = Todo,
          created_at = utf16 ''2024-03-01T09:00:00+00:00''\<rparr>,
        \<lparr>row_id = utf16 ''q7w1e5r'', row_title = utf16 ''Write spec'', status = Done,
          created_at = utf16 ''2024-02-28T08:00:00+00:00''\<rparr>]" seed_board In_progress]
  by simp

lemma fetchTasks_no_data: "fetchTasks date_parse None board = board"
  by (simp add: fetchTasks_def)

text \<open>
  Claim C8. In the local variant, when the stored snapshot is absent or \<open>JSON.parse\<close>
  fails on it, the state after the load effect is the seed state \<open>initialData\<close>: two
  tasks in \<open>todo\<close>, and empty \<open>in_progress\<close> and \<open>done\<close> lists.
\<close>

theorem load_falls_back_to_seed:
  assumes "item = Missing \<or> parsed = None"
  shows "useLocalBoard_load (initialData id1 id2 now1 now2) item parsed
           = Board (initialData id1 id2 now1 now2)
       \<and> length (initialData id1 id2 now1 now2 Todo) = 2
       \<and> map task_id (initialData id1 id2 now1 now2 Todo) = [id1, id2]
       \<and> initialData id1 id2 now1 now2 In_progress = []
       \<and> initialData id1 id2 now1 now2 Done = []"
  using assms
  by (auto simp add: useLocalBoard_load_def initialData_def split: stored_item.split)

theorem load_falls_back_to_seed_witness:
  "(Stored (utf16 ''{todo:'') = Missing \<or> (None :: json option) = None)
   \<and> useLocalBoard_load seed_board (Stored (utf16 ''{todo:'')) None = Board seed_board
   \<and> useLocalBoard_load seed_board Missing (Some JNull) = Board seed_board
   \<and> map task_id (seed_board Todo) = [utf16 ''k3x9q2a'', utf16 ''p0m4z8c'']"
proof -
  have h1: "Stored (utf16 ''{todo:'') = Missing \<or> (None :: json option) = None"
    by simp
  have h2: "Missing = Missing \<or> Some JNull = None"
    by simp
  show ?thesis
    using h1 load_falls_back_to_seed [OF h1, of "utf16 ''k3x9q2a''" "utf16 ''p0m4z8c''"
        "Finite 1700000000000" "Finite 1700000000000"]
      load_falls_back_to_seed [OF h2, of "utf16 ''k3x9q2a''" "utf16 ''p0m4z8c''"
        "Finite 1700000000000" "Finite 1700000000000"]
    by simp
qed

section \<open>Removing a task in the remote variant\<close>

text \<open>
  Claim C10. In the remote variant \<open>removeTask\<close> always issues the delete of the
  row with the given id, whatever the stage argument: when no task with that id is in
  the named stage's list, the board is unchanged and the delete is issued all the same.
\<close>

theorem removeTask_remote_deletes_by_id:
  "snd (removeTask_remote col ident prev) = [DeleteById ident]
   \<and> (ident \<notin> task_id ` set (prev col) \<longrightarrow> fst (removeTask_remote col ident prev) = prev)"
proof -
  have "filter (\<lambda>t. task_id t \<noteq> ident) (prev col) = prev col"
    if "ident \<notin> task_id ` set (prev col)"
    using that by (auto simp add: filter_id_conv)
  then show ?thesis
    by (simp add: removeTask_remote_def removeTask_def)
qed

theorem removeTask_remote_deletes_by_id_witness:
  "utf16 ''k3x9q2a'' \<notin> task_id ` set (seed_board Done)
   \<and> removeTask_remote Done (utf16 ''k3x9q2a'') seed_board
       = (seed_board, [DeleteById (utf16 ''k3x9q2a'')])"
proof -
  have h: "utf16 ''k3x9q2a'' \<notin> task_id ` set (seed_board Done)"
    by (simp add: initialData_def)
  show ?thesis
    using h removeTask_remote_deletes_by_id [of Done "utf16 ''k3x9q2a''" seed_board]
    by (simp add: prod_eq_iff)
qed


section \<open>Properties of \<open>onDropColumn\<close>\<close>

lemma column_of_key_name: "column_of_key (JStr (column_name c)) = Some c"
  by (cases c) (simp_all add: column_name_def utf16_def)

lemma column_name_inject: "column_name a = column_name b \<longleftrightarrow> a = b"
  by (cases a; cases b) (simp_all add: column_name_def utf16_def)

text \<open>
  On a stage name and a string id, \<open>moveTask\<close> runs as its types say.
\<close>

lemma moveTask_dyn_typed:
  "moveTask_dyn (JStr (column_name from)) to (JStr ident) index prev
     = Inr (moveTask from to ident index prev)"
proof -
  have same: "(JStr (column_name from) = JStr (column_name to)) = (from = to)"
    by (simp add: column_name_inject)
  have ident: "(\<lambda>t. JStr (task_id t) = JStr ident) = (\<lambda>t. task_id t = ident)"
    by simp
  show ?thesis
    unfolding moveTask_dyn_def moveTask_def column_of_key_name same ident
    by (simp add: Let_def split: prod.split)
qed

text \<open>
  A payload that fails to parse, or lacks a truthy \<open>taskId\<close> or \<open>from\<close>, is
  ignored; a payload written by \<open>onDragStart\<close> moves the task to the end of the
  target stage.
\<close>

lemma onDropColumn_ignored:
  assumes "parsed = None
     \<or> (\<exists>payload. parsed = Some payload
          \<and> (member payload (utf16 ''taskId'') = None
             \<or> (\<exists>v. member payload (utf16 ''taskId'') = Some v \<and> \<not> truthy v)
             \<or> member payload (utf16 ''from'') = None
             \<or> (\<exists>v. member payload (utf16 ''from'') = Some v \<and> \<not> truthy v)))"
  shows "onDropColumn parsed to board = Inr board"
  using assms by (auto simp add: onDropColumn_def split: option.split)

lemma onDropColumn_moves:
  assumes "member payload (utf16 ''taskId'') = Some (JStr ident)" and "ident \<noteq> []"
    and "member payload (utf16 ''from'') = Some (JStr (column_name from))"
  shows "onDropColumn (Some payload) to board = Inr (moveTask from to ident None board)"
proof -
  have "column_name from \<noteq> []"
    by (cases "from") (simp_all add: column_name_def utf16_def)
  with assms show ?thesis
    by (simp add: onDropColumn_def moveTask_dyn_typed)
qed


text \<open>
  Claim C7 says that handling a drop never crashes or corrupts the board, for every
  payload string. The guard of \<open>onDropColumn\<close> tests that \<open>from\<close> is present, not
  that it names a stage. For the payload \<open>{"taskId":"k3x9q2a","from":"bogus"}\<close>
  dropped on \<open>todo\<close>, the function handed to \<open>setBoard\<close> spreads
  \<open>prev["bogus"]\<close>, which is \<open>undefined\<close>, and throws TypeError when React runs
  it: no next board is produced.
\<close>

theorem onDropColumn_unknown_stage:
  "onDropColumn
     (Some (JObj [(utf16 ''taskId'', JStr (utf16 ''k3x9q2a'')),
                  (utf16 ''from'', JStr (utf16 ''bogus''))]))
     Todo seed_board
   = Inl TypeError"
  by (simp add: onDropColumn_def moveTask_dyn_def utf16_def)

text \<open>
  The same missing check lets a payload through whose \<open>from\<close> is \<open>["todo"]\<close>. As
  a key it names \<open>todo\<close>, yet \<open>from === to\<close> is false, so dropped on \<open>todo\<close>
  the task is removed from one copy of the list and appended to another, and the
  appended copy is the one stored: the task is on the board twice.
\<close>

lemma onDropColumn_array_stage:
  "onDropColumn
     (Some (JObj [(utf16 ''taskId'', JStr (utf16 ''k3x9q2a'')),
                  (utf16 ''from'', JArr [JStr (utf16 ''todo'')])]))
     Todo seed_board
   = Inr (seed_board(Todo := seed_board Todo @ [hd (seed_board Todo)]))"
  by (simp add: onDropColumn_def moveTask_dyn_def utf16_def initialData_def findIndex_def
        splice_in_def splice_def column_name_def Let_def)

end
